theory Spec2Isabelle
  imports Main "HOL-Library.Word" "HOL-Library.Signed_Division"
begin

unbundle bit_operations_syntax

section \<open>Go run-time values\<close>

text \<open>
  A Go run-time panic is a value of the model.  An index or a slice bound outside
  the slice gives \<open>IndexOutOfRange\<close>, a field read or write through a nil pointer
  gives \<open>NilDereference\<close>, \<open>make\<close> with a negative length gives
  \<open>LenOutOfRange\<close>, and an integer remainder by zero gives \<open>DivideByZero\<close>.
  A loop that may run forever returns an \<open>option\<close>, and \<open>None\<close> stands for the
  run that does not end.
\<close>

datatype error = IndexOutOfRange | NilDereference | LenOutOfRange | DivideByZero

text \<open>
  Go's \<open>int\<close> is a 64-bit two's complement integer.  It is modelled as \<open>int\<close>, and
  \<open>wrap64\<close> is written at every operation whose result can leave the 64-bit range.
\<close>

definition wrap64 :: "int \<Rightarrow> int" where
  "wrap64 x = (x + 2 ^ 63) mod 2 ^ 64 - 2 ^ 63"

text \<open>
  The slice expression \<open>s[lo:hi]\<close>.  Go panics unless \<open>0 \<le> lo \<le> hi \<le> cap(s)\<close>;
  every slice expression of the package has \<open>hi \<le> len(s)\<close>, and the model checks
  the bounds against the length.
\<close>

definition subslice :: "'a list \<Rightarrow> int \<Rightarrow> int \<Rightarrow> error + 'a list" where
  "subslice s lo hi =
     (if 0 \<le> lo \<and> lo \<le> hi \<and> hi \<le> int (length s)
      then Inr (take (nat hi - nat lo) (drop (nat lo) s))
      else Inl IndexOutOfRange)"

text \<open>
  The builtin \<open>copy(dst, src)\<close>: the first \<open>min(len(dst), len(src))\<close> elements of
  \<open>dst\<close> are replaced by those of \<open>src\<close>, read before any of them is written.
\<close>

definition copy_go :: "'a list \<Rightarrow> 'a list \<Rightarrow> 'a list" where
  "copy_go dst src =
     (let n = min (length dst) (length src) in take n src @ drop n dst)"

section \<open>Package sorted\<close>

subsection \<open>BinarySearchInt\<close>

text \<open>
  The first loop of \<open>BinarySearchInt\<close>.  \<open>(low + high) / 2\<close> is a wrapping addition
  followed by Go's division, which truncates towards zero; \<open>slice[mid]\<close> panics
  outside the slice.  \<open>mid + 1\<close> cannot overflow, \<open>mid\<close> being an index.
\<close>

partial_function (option) BinarySearchInt_loop ::
  "'a::linorder list \<Rightarrow> 'a \<Rightarrow> int \<Rightarrow> int \<Rightarrow> (error + int) option" where
  "BinarySearchInt_loop sl target low high =
     (if low < high then
        (let mid = wrap64 (low + high) sdiv 2 in
         if mid < 0 \<or> int (length sl) \<le> mid then Some (Inl IndexOutOfRange)
         else if sl ! nat mid < target
           then BinarySearchInt_loop sl target (mid + 1) high
           else BinarySearchInt_loop sl target low mid)
      else Some (Inr low))"

declare BinarySearchInt_loop.simps [code]

text \<open>
  The second loop, \<open>for low > 0 && slice[low-1] == target { low-- }\<close>, which
  walks back to the first element of a run of the target.
\<close>

function BinarySearchInt_first :: "'a list \<Rightarrow> 'a \<Rightarrow> int \<Rightarrow> error + int" where
  "BinarySearchInt_first sl target low =
     (if 0 < low then
        (if int (length sl) \<le> low - 1 then Inl IndexOutOfRange
         else if sl ! nat (low - 1) = target
           then BinarySearchInt_first sl target (low - 1)
           else Inr low)
      else Inr low)"
  by pat_completeness auto
termination
  by (relation "measure (\<lambda>(sl, target, low). nat low)") auto

declare BinarySearchInt_first.simps [simp del]

definition BinarySearchInt ::
  "'a::linorder list \<Rightarrow> 'a \<Rightarrow> (error + int \<times> bool) option" where
  "BinarySearchInt sl target =
     (case BinarySearchInt_loop sl target 0 (int (length sl)) of
        None \<Rightarrow> None
      | Some (Inl e) \<Rightarrow> Some (Inl e)
      | Some (Inr low) \<Rightarrow>
          if low < int (length sl) then
            (if low < 0 then Some (Inl IndexOutOfRange)
             else if sl ! nat low = target then
               (case BinarySearchInt_first sl target low of
                  Inl e \<Rightarrow> Some (Inl e)
                | Inr low' \<Rightarrow> Some (Inr (low', True)))
             else Some (Inr (low, False)))
          else Some (Inr (low, False)))"

subsection \<open>GallopingSearchInt\<close>

text \<open>
  The probing loop.  \<open>prevIndex + spanSize\<close> and \<open>spanSize << 1\<close> wrap; the
  clamped index \<open>len(slice) - 1\<close> and \<open>currentIndex + 1\<close> cannot.  Both exits hand
  the sub-slice \<open>slice[prevIndex:currentIndex+1]\<close> to \<open>BinarySearchInt\<close> and return
  its result as it is.
\<close>

partial_function (option) GallopingSearchInt_loop ::
  "'a::linorder list \<Rightarrow> 'a \<Rightarrow> int \<Rightarrow> int \<Rightarrow> (error + int \<times> bool) option" where
  "GallopingSearchInt_loop sl target prevIndex spanSize =
     (let currentIndex = wrap64 (prevIndex + spanSize) in
      if currentIndex < 0 \<or> int (length sl) \<le> currentIndex then
        (let currentIndex = int (length sl) - 1 in
         case subslice sl prevIndex (currentIndex + 1) of
           Inl e \<Rightarrow> Some (Inl e)
         | Inr sub \<Rightarrow> BinarySearchInt sub target)
      else if sl ! nat currentIndex < target
        then GallopingSearchInt_loop sl target currentIndex (wrap64 (spanSize * 2))
        else
          (case subslice sl prevIndex (currentIndex + 1) of
             Inl e \<Rightarrow> Some (Inl e)
           | Inr sub \<Rightarrow> BinarySearchInt sub target))"

declare GallopingSearchInt_loop.simps [code]

definition GallopingSearchInt ::
  "'a::linorder list \<Rightarrow> 'a \<Rightarrow> (error + int \<times> bool) option" where
  "GallopingSearchInt sl target =
     (let threshold = 64 in
      if int (length sl) < threshold then BinarySearchInt sl target
      else if int (length sl) - 1 < 0 then Some (Inl IndexOutOfRange)
      else GallopingSearchInt_loop sl target 0 threshold)"

subsection \<open>InsertInt\<close>

text \<open>
  \<open>append\<close> makes room at the end, \<open>copy\<close> moves the elements from \<open>index\<close> on one
  place to the right inside the same backing array, and the value is stored at
  \<open>index\<close>.
\<close>

definition InsertInt ::
  "'a::linorder list \<Rightarrow> 'a \<Rightarrow> bool \<Rightarrow> (error + 'a list) option" where
  "InsertInt sl v allowDuplicates =
     (case GallopingSearchInt sl v of
        None \<Rightarrow> None
      | Some (Inl e) \<Rightarrow> Some (Inl e)
      | Some (Inr (index, found)) \<Rightarrow>
          if found \<and> \<not> allowDuplicates then Some (Inr sl)
          else
            (let sl1 = sl @ [v];
                 n = int (length sl1) in
             case (subslice sl1 (index + 1) n, subslice sl1 index n) of
               (Inr dst, Inr src) \<Rightarrow>
                 (let sl2 = take (nat (index + 1)) sl1 @ copy_go dst src in
                  if index < 0 \<or> int (length sl2) \<le> index
                  then Some (Inl IndexOutOfRange)
                  else Some (Inr (sl2[nat index := v])))
             | _ \<Rightarrow> Some (Inl IndexOutOfRange)))"

section \<open>Package contracts\<close>

text \<open>
  \<open>Percent\<close> is a named type over \<open>float64\<close>.  Go's \<open>float64\<close> is an abstract type
  \<open>'f\<close> here, and its division, its multiplication and the constant \<open>100.0\<close> are
  parameters of the functions that use them: nothing is assumed of IEEE arithmetic.
  The conversion \<open>Percent(x)\<close> is the constructor and \<open>float64(p)\<close> takes it off.
\<close>

datatype 'f Percent = Percent 'f

fun float64 :: "'f Percent \<Rightarrow> 'f" where
  "float64 (Percent x) = x"

definition MakePercent :: "('f \<Rightarrow> 'f \<Rightarrow> 'f) \<Rightarrow> 'f \<Rightarrow> 'f \<Rightarrow> 'f Percent" where
  "MakePercent fdiv hundred percentage = Percent (fdiv percentage hundred)"

definition MakePercentFromDecimal :: "'f \<Rightarrow> 'f Percent" where
  "MakePercentFromDecimal decimal = Percent decimal"

definition AsDecimal :: "'f Percent \<Rightarrow> 'f" where
  "AsDecimal this = float64 this"

definition AsPercentage :: "('f \<Rightarrow> 'f \<Rightarrow> 'f) \<Rightarrow> 'f \<Rightarrow> 'f Percent \<Rightarrow> 'f" where
  "AsPercentage fmul hundred this = fmul (float64 this) hundred"

section \<open>Package mm: the buddy allocator\<close>

text \<open>
  The constants and the options of the allocator.  An option is a function on the
  options record, as in the source, and \<open>NewBuddyAllocator\<close> applies them in order.
\<close>

definition minimumMaxOrder :: "8 word" where
  "minimumMaxOrder = 3"

definition minimumCapacity :: "64 word" where
  "minimumCapacity = push_bit 3 1"

record BuddyAllocatorOptions =
  Capacity :: "64 word"
  MaxOrder :: "8 word"
  MaxOrderSet :: bool

definition WithInitialCapacity ::
  "64 word \<Rightarrow> BuddyAllocatorOptions \<Rightarrow> BuddyAllocatorOptions" where
  "WithInitialCapacity capacity opts = opts\<lparr>Capacity := max capacity minimumCapacity\<rparr>"

definition WithMaxOrder ::
  "8 word \<Rightarrow> BuddyAllocatorOptions \<Rightarrow> BuddyAllocatorOptions" where
  "WithMaxOrder order opts =
     opts\<lparr>MaxOrder := max order minimumMaxOrder, MaxOrderSet := True\<rparr>"

text \<open>
  The allocator: its options, which hold the capacity and the largest order, the units in
  use, and one list of free block offsets per order.  Offsets and sizes are \<open>uint64\<close>,
  orders are \<open>uint8\<close>; both wrap.
\<close>

record BuddyAllocator =
  state :: BuddyAllocatorOptions
  used :: "64 word"
  freeLists :: "64 word list list"

text \<open>
  \<open>uint64(1) << n\<close> for an order \<open>n\<close>; a shift by 64 or more gives 0.
\<close>

definition shl1 :: "8 word \<Rightarrow> 64 word" where
  "shl1 n = push_bit (unat n) 1"

text \<open>
  \<open>orderOf(size)\<close> is \<open>bits.Len64(size) - 1\<close>, and 0 for size 0.  \<open>bits.Len64\<close>
  of the standard library is the number of bits needed to write its argument.
\<close>

fun bitLen :: "nat \<Rightarrow> nat" where
  "bitLen n = (if n = 0 then 0 else Suc (bitLen (n div 2)))"

declare bitLen.simps [simp del]

definition Len64 :: "64 word \<Rightarrow> int" where
  "Len64 x = int (bitLen (unat x))"

definition orderOf :: "64 word \<Rightarrow> 8 word" where
  "orderOf sz = (if sz = 0 then 0 else word_of_int (Len64 sz - 1))"

text \<open>
  \<open>NewBuddyAllocator\<close>.  The options start at capacity 1024 and order 10; the capacity
  is raised to one top block and rounded up to a multiple of the top block size; the last
  loop appends every top block to the free list of the top order.
\<close>

partial_function (option) NewBuddyAllocator_fill ::
  "BuddyAllocatorOptions \<Rightarrow> 64 word \<Rightarrow> 64 word list list \<Rightarrow>
     (error + 64 word list list) option" where
  "NewBuddyAllocator_fill st index fls =
     (if index < Capacity st then
        (if length fls \<le> unat (MaxOrder st) then Some (Inl IndexOutOfRange)
         else NewBuddyAllocator_fill st (index + shl1 (MaxOrder st))
                (fls[unat (MaxOrder st) := fls ! unat (MaxOrder st) @ [index]]))
      else Some (Inr fls))"

declare NewBuddyAllocator_fill.simps [code]

definition NewBuddyAllocator ::
  "(BuddyAllocatorOptions \<Rightarrow> BuddyAllocatorOptions) list \<Rightarrow> (error + BuddyAllocator) option" where
  "NewBuddyAllocator options =
     (let initialMaxOrder = 10;
          initialSize = push_bit 10 1;
          st0 = \<lparr>Capacity = initialSize, MaxOrder = initialMaxOrder, MaxOrderSet = False\<rparr>;
          st1 = fold (\<lambda>option st. option st) options st0;
          st2 = (if Capacity st1 < shl1 (MaxOrder st1)
                 then st1\<lparr>Capacity := shl1 (MaxOrder st1)\<rparr> else st1);
          st3 = st2\<lparr>Capacity := (Capacity st2 + (shl1 (MaxOrder st2) - 1))
                                    AND NOT (shl1 (MaxOrder st2) - 1)\<rparr>
      in case NewBuddyAllocator_fill st3 0 (replicate (unat (MaxOrder st3 + 1)) []) of
           None \<Rightarrow> None
         | Some (Inl e) \<Rightarrow> Some (Inl e)
         | Some (Inr fls) \<Rightarrow> Some (Inr \<lparr>state = st3, used = 0, freeLists = fls\<rparr>))"

text \<open>
  \<open>grow\<close> appends one block of \<open>max(1 << MaxOrder, 8)\<close> units at the old capacity,
  recomputes \<open>MaxOrder\<close> unless it was set, makes room for more free lists, and
  appends the new block to the free list of its order.
\<close>

definition grow :: "BuddyAllocator \<Rightarrow> error + 64 word \<times> BuddyAllocator" where
  "grow a =
     (let newMemoryIndex = Capacity (state a);
          newMemorySize = max (shl1 (MaxOrder (state a))) 8;
          newMemoryOrder = orderOf newMemorySize;
          newCapacity = Capacity (state a) + newMemorySize;
          st1 = (state a)\<lparr>Capacity := newCapacity\<rparr>;
          st2 = (if MaxOrderSet st1 then st1 else st1\<lparr>MaxOrder := orderOf newCapacity\<rparr>);
          fls = (if (of_nat (length (freeLists a)) :: 8 word) \<le> MaxOrder st2
                 then copy_go (replicate (unat (MaxOrder st2 + 1)) []) (freeLists a)
                 else freeLists a)
      in if length fls \<le> unat newMemoryOrder then Inl IndexOutOfRange
         else Inr (newCapacity,
                a\<lparr>state := st2,
                   freeLists := fls[unat newMemoryOrder :=
                                      fls ! unat newMemoryOrder @ [newMemoryIndex]]\<rparr>))"

text \<open>
  \<open>Allocate\<close>, in the order of the source: the loop that grows until the required
  order fits; the loop that splits a popped block down to the required order, inserting
  each upper half with \<open>sorted.InsertInt\<close>; the scan from the required order upwards
  for a non-empty free list; and the function itself, which grows once and calls itself
  when the scan finds nothing.
\<close>

partial_function (option) Allocate_grow ::
  "BuddyAllocator \<Rightarrow> 8 word \<Rightarrow> (error + BuddyAllocator) option" where
  "Allocate_grow a requiredOrder =
     (if MaxOrder (state a) < requiredOrder then
        (case grow a of
           Inl e \<Rightarrow> Some (Inl e)
         | Inr (c, a') \<Rightarrow> Allocate_grow a' requiredOrder)
      else Some (Inr a))"

declare Allocate_grow.simps [code]

partial_function (option) Allocate_split ::
  "64 word list list \<Rightarrow> 64 word \<Rightarrow> 8 word \<Rightarrow> 8 word \<Rightarrow> (error + 64 word list list) option" where
  "Allocate_split fls index currentOrder requiredOrder =
     (if requiredOrder < currentOrder then
        (let buddyIndex = index + shl1 (currentOrder - 1)
         in if length fls \<le> unat (currentOrder - 1) then Some (Inl IndexOutOfRange)
            else
              (case InsertInt (fls ! unat (currentOrder - 1)) buddyIndex False of
                 None \<Rightarrow> None
               | Some (Inl e) \<Rightarrow> Some (Inl e)
               | Some (Inr fl) \<Rightarrow>
                   Allocate_split (fls[unat (currentOrder - 1) := fl]) index
                     (currentOrder - 1) requiredOrder))
      else Some (Inr fls))"

declare Allocate_split.simps [code]

partial_function (option) Allocate_scan ::
  "BuddyAllocator \<Rightarrow> 64 word \<Rightarrow> 8 word \<Rightarrow> 8 word \<Rightarrow>
     (error + (64 word \<times> BuddyAllocator) option) option" where
  "Allocate_scan a sz requiredOrder order =
     (if order \<le> MaxOrder (state a) then
        (if length (freeLists a) \<le> unat order then Some (Inl IndexOutOfRange)
         else if 0 < length (freeLists a ! unat order) then
           (let fl = freeLists a ! unat order;
                index = fl ! (length fl - 1);
                fls = (freeLists a)[unat order := take (length fl - 1) fl]
            in case Allocate_split fls index order requiredOrder of
                 None \<Rightarrow> None
               | Some (Inl e) \<Rightarrow> Some (Inl e)
               | Some (Inr fls') \<Rightarrow>
                   Some (Inr (Some (index, a\<lparr>used := used a + sz, freeLists := fls'\<rparr>))))
         else Allocate_scan a sz requiredOrder (order + 1))
      else Some (Inr None))"

declare Allocate_scan.simps [code]

partial_function (option) Allocate ::
  "BuddyAllocator \<Rightarrow> 64 word \<Rightarrow> (error + (64 word \<times> bool \<times> bool) \<times> BuddyAllocator) option" where
  "Allocate a sz =
     (let requiredOrder = orderOf sz
      in if MaxOrder (state a) < requiredOrder \<and> MaxOrderSet (state a)
         then Some (Inr ((0, False, False), a))
         else
           (case Allocate_grow a requiredOrder of
              None \<Rightarrow> None
            | Some (Inl e) \<Rightarrow> Some (Inl e)
            | Some (Inr a1) \<Rightarrow>
                (let grew = (MaxOrder (state a) < requiredOrder)
                 in case Allocate_scan a1 sz requiredOrder requiredOrder of
                      None \<Rightarrow> None
                    | Some (Inl e) \<Rightarrow> Some (Inl e)
                    | Some (Inr (Some (index, a2))) \<Rightarrow> Some (Inr ((index, grew, True), a2))
                    | Some (Inr None) \<Rightarrow>
                        (case grow a1 of
                           Inl e \<Rightarrow> Some (Inl e)
                         | Inr (c, a3) \<Rightarrow>
                             Option.bind (Allocate a3 sz)
                               (\<lambda>r. Some (case r of
                                              Inl e \<Rightarrow> Inl e
                                            | Inr ((index, g, ok), a4) \<Rightarrow>
                                                Inr ((index, True, ok), a4)))))))"

declare Allocate.simps [code]

text \<open>
  The method \<open>Capacity()\<close>; the primed name keeps it apart from the field.
\<close>

definition Capacity' :: "BuddyAllocator \<Rightarrow> 64 word" where
  "Capacity' a = Capacity (state a)"

text \<open>
  \<open>Free\<close>.  The first loop looks for the index in every free list with
  \<open>sorted.GallopingSearchInt\<close>.  The second loop merges upwards: it returns false
  when the running index is not aligned to twice the block size of the order, removes a
  free buddy and goes one order up, or inserts the running index with
  \<open>sorted.InsertInt\<close>.  \<open>used\<close> is decremented between the two loops.
\<close>

partial_function (option) Free_scan ::
  "BuddyAllocator \<Rightarrow> 64 word \<Rightarrow> 8 word \<Rightarrow> (error + bool) option" where
  "Free_scan a index currentOrder =
     (if currentOrder \<le> MaxOrder (state a) then
        (if length (freeLists a) \<le> unat currentOrder then Some (Inl IndexOutOfRange)
         else
           (case GallopingSearchInt (freeLists a ! unat currentOrder) index of
              None \<Rightarrow> None
            | Some (Inl e) \<Rightarrow> Some (Inl e)
            | Some (Inr (i, found)) \<Rightarrow>
                if found then Some (Inr True) else Free_scan a index (currentOrder + 1)))
      else Some (Inr False))"

declare Free_scan.simps [code]

partial_function (option) Free_merge ::
  "BuddyAllocator \<Rightarrow> 64 word \<Rightarrow> 8 word \<Rightarrow> (error + bool \<times> BuddyAllocator) option" where
  "Free_merge a currentIndex currentOrder =
     (if currentOrder < MaxOrder (state a) then
        (if shl1 (currentOrder + 1) = 0 then Some (Inl DivideByZero)
         else if currentIndex mod shl1 (currentOrder + 1) \<noteq> 0 then Some (Inr (False, a))
         else
           (let buddyIndex = currentIndex XOR shl1 currentOrder
            in if length (freeLists a) \<le> unat currentOrder then Some (Inl IndexOutOfRange)
               else
                 (let fl = freeLists a ! unat currentOrder
                  in case GallopingSearchInt fl buddyIndex of
                       None \<Rightarrow> None
                     | Some (Inl e) \<Rightarrow> Some (Inl e)
                     | Some (Inr (index, found)) \<Rightarrow>
                         if found then
                           (case (subslice fl 0 index,
                                  subslice fl (index + 1) (int (length fl))) of
                              (Inr front, Inr back) \<Rightarrow>
                                Free_merge
                                  (a\<lparr>freeLists := (freeLists a)[unat currentOrder := front @ back]\<rparr>)
                                  (min currentIndex buddyIndex) (currentOrder + 1)
                            | _ \<Rightarrow> Some (Inl IndexOutOfRange))
                         else
                           (case InsertInt fl currentIndex False of
                              None \<Rightarrow> None
                            | Some (Inl e) \<Rightarrow> Some (Inl e)
                            | Some (Inr fl') \<Rightarrow>
                                Some (Inr (True,
                                  a\<lparr>freeLists := (freeLists a)[unat currentOrder := fl']\<rparr>))))))
      else
        (if length (freeLists a) \<le> unat (MaxOrder (state a)) then Some (Inl IndexOutOfRange)
         else
           (case InsertInt (freeLists a ! unat (MaxOrder (state a))) currentIndex False of
              None \<Rightarrow> None
            | Some (Inl e) \<Rightarrow> Some (Inl e)
            | Some (Inr fl') \<Rightarrow>
                Some (Inr (True,
                  a\<lparr>freeLists := (freeLists a)[unat (MaxOrder (state a)) := fl']\<rparr>)))))"

declare Free_merge.simps [code]

definition Free ::
  "BuddyAllocator \<Rightarrow> 64 word \<Rightarrow> 64 word \<Rightarrow> (error + bool \<times> BuddyAllocator) option" where
  "Free a index sz =
     (if Capacity (state a) \<le> index then Some (Inr (False, a))
      else
        (case Free_scan a index 0 of
           None \<Rightarrow> None
         | Some (Inl e) \<Rightarrow> Some (Inl e)
         | Some (Inr found) \<Rightarrow>
             if found then Some (Inr (False, a))
             else
               (let requiredOrder = orderOf sz;
                    a1 = a\<lparr>used := used a - sz\<rparr>
                in Free_merge a1 index requiredOrder)))"

text \<open>
  The method \<open>Used()\<close>.
\<close>

definition Used :: "BuddyAllocator \<Rightarrow> 64 word" where
  "Used a = used a"

section \<open>Package ll: the linked list\<close>

text \<open>
  The node slot \<open>linkedListNode\<close>.  Every \<open>uint64\<close> of the package is a
  \<open>64 word\<close>, so that \<open>++\<close> and \<open>--\<close> wrap as they do in Go.
\<close>

record linkedListNode =
  "next" :: "64 word"
  previous :: "64 word"
  valueIndex :: "64 word"

text \<open>
  The list itself.  Index 0 of \<open>nodes\<close> and \<open>values\<close> is the null sentinel.
\<close>

record 'a LinkedList =
  head :: "64 word"
  tail :: "64 word"
  size :: "64 word"
  nodes :: "linkedListNode list"
  "values" :: "'a list"
  memory :: BuddyAllocator

text \<open>
  Lists are reached through pointers: a handle keeps the pointer \<open>linkedList\<close> of
  its owner, and \<open>Remove\<close> compares it with the receiver.  A pointer is nil or an
  address, and the heap holds the list stored at each address.
\<close>

datatype ref = NilRef | Ref nat

text \<open>
  The handle \<open>LinkedListNode\<close> handed out to callers.
\<close>

record 'a LinkedListNode =
  Value :: 'a
  valueIndex :: "64 word"
  linkedList :: ref
  "next" :: "64 word"
  previous :: "64 word"

type_synonym 'a heap = "'a LinkedList list"

text \<open>
  Reading and writing a list through its pointer.  A field access through nil panics.
\<close>

definition deref :: "'a heap \<Rightarrow> ref \<Rightarrow> error + 'a LinkedList" where
  "deref H p =
     (case p of
        NilRef \<Rightarrow> Inl NilDereference
      | Ref a \<Rightarrow> if a < length H then Inr (H ! a) else Inl NilDereference)"

definition store :: "'a heap \<Rightarrow> ref \<Rightarrow> 'a LinkedList \<Rightarrow> 'a heap" where
  "store H p l = (case p of NilRef \<Rightarrow> H | Ref a \<Rightarrow> H[a := l])"

text \<open>
  \<open>make([]T, n)\<close> gives \<open>n\<close> zero values; the zero value of the element type
  \<open>T\<close> is the \<open>0\<close> of the type class.
\<close>

definition make :: "'a \<Rightarrow> 64 word \<Rightarrow> 'a list" where
  "make z n = replicate (unat n) z"

definition zeroNode :: linkedListNode where
  "zeroNode = \<lparr>linkedListNode.next = 0, previous = 0, valueIndex = 0\<rparr>"

text \<open>
  \<open>NewLinkedList(initialSize ...int)\<close>.  The new list is stored at a fresh address.
  \<open>make\<close> with a negative length panics.
\<close>

definition NewLinkedList ::
  "'a::zero heap \<Rightarrow> int list \<Rightarrow> (error + 'a heap \<times> ref) option" where
  "NewLinkedList H initialSize =
     (let defaultInitialSize = 16;
          sz = (if 0 < length initialSize then max (hd initialSize) defaultInitialSize
                else defaultInitialSize);
          n = wrap64 (sz + 1)
      in if n < 0 then Some (Inl LenOutOfRange)
         else
           (case NewBuddyAllocator [WithInitialCapacity (word_of_int sz)] of
              None \<Rightarrow> None
            | Some (Inl e) \<Rightarrow> Some (Inl e)
            | Some (Inr mem) \<Rightarrow>
                Some (Inr (H @ [\<lparr>head = 0, tail = 0, size = 0,
                                  nodes = replicate (nat n) zeroNode,
                                  values = replicate (nat n) 0,
                                  memory = mem\<rparr>],
                           Ref (length H)))))"

text \<open>
  The first lines of \<open>Append\<close>, \<open>Prepend\<close>, \<open>InsertNext\<close> and
  \<open>InsertPrevious\<close> are the same: one unit is allocated, the offset is shifted by one
  past the sentinel, and when the allocator grew both arrays are copied into new ones of
  \<open>Capacity() + 1\<close> elements.  The third result of \<open>Allocate\<close> is dropped, as in
  the source.
\<close>

definition lease :: "'a::zero LinkedList \<Rightarrow> (error + 64 word \<times> 'a LinkedList) option" where
  "lease l =
     (case Allocate (memory l) 1 of
        None \<Rightarrow> None
      | Some (Inl e) \<Rightarrow> Some (Inl e)
      | Some (Inr ((newNodeIndex, grew, ok), mem)) \<Rightarrow>
          Some (Inr (newNodeIndex + 1,
            if grew
            then l\<lparr>nodes := copy_go (make zeroNode (Capacity' mem + 1)) (nodes l),
                   values := copy_go (make 0 (Capacity' mem + 1)) (values l),
                   memory := mem\<rparr>
            else l\<lparr>memory := mem\<rparr>)))"

text \<open>
  \<open>Append\<close>.  The body works on the list the receiver points to; every index
  expression panics outside its array.
\<close>

definition Append_body :: "'a \<Rightarrow> 'a::zero LinkedList \<Rightarrow> (error + 'a LinkedList) option" where
  "Append_body v l =
     (case lease l of
        None \<Rightarrow> None
      | Some (Inl e) \<Rightarrow> Some (Inl e)
      | Some (Inr (newNodeIndex, l1)) \<Rightarrow>
          if length (values l1) \<le> unat newNodeIndex then Some (Inl IndexOutOfRange)
          else
            (let l2 = l1\<lparr>values := (values l1)[unat newNodeIndex := v]\<rparr>;
                 newNode = \<lparr>linkedListNode.next = 0, previous = tail l2,
                            valueIndex = newNodeIndex\<rparr>
             in if length (nodes l2) \<le> unat newNodeIndex then Some (Inl IndexOutOfRange)
                else
                  (let l3 = l2\<lparr>nodes := (nodes l2)[unat newNodeIndex := newNode]\<rparr>
                   in if tail l3 \<noteq> 0 \<and> length (nodes l3) \<le> unat (tail l3)
                      then Some (Inl IndexOutOfRange)
                      else
                        (let l4 = (if tail l3 \<noteq> 0
                                   then l3\<lparr>nodes := (nodes l3)[unat (tail l3) :=
                                          (nodes l3 ! unat (tail l3))
                                            \<lparr>linkedListNode.next := newNodeIndex\<rparr>]\<rparr>
                                   else l3);
                             l5 = l4\<lparr>tail := newNodeIndex\<rparr>;
                             l6 = (if head l5 = 0 then l5\<lparr>head := newNodeIndex\<rparr> else l5)
                         in Some (Inr (l6\<lparr>size := LinkedList.size l6 + 1\<rparr>))))))"


definition Append :: "'a::zero heap \<Rightarrow> ref \<Rightarrow> 'a \<Rightarrow> (error + 'a heap) option" where
  "Append H this v =
     (case deref H this of
        Inl e \<Rightarrow> Some (Inl e)
      | Inr l \<Rightarrow>
          (case Append_body v l of
             None \<Rightarrow> None
           | Some (Inl e) \<Rightarrow> Some (Inl e)
           | Some (Inr l') \<Rightarrow> Some (Inr (store H this l'))))"

text \<open>
  \<open>Head\<close> snapshots the first node into a handle.
\<close>

definition Head :: "'a heap \<Rightarrow> ref \<Rightarrow> error + 'a LinkedListNode option" where
  "Head H this =
     (case deref H this of
        Inl e \<Rightarrow> Inl e
      | Inr l \<Rightarrow>
          if head l = 0 then Inr None
          else if length (nodes l) \<le> unat (head l) then Inl IndexOutOfRange
          else
            (let node = nodes l ! unat (head l)
             in if length (values l) \<le> unat (linkedListNode.valueIndex node)
                then Inl IndexOutOfRange
                else Inr (Some \<lparr>Value = values l ! unat (linkedListNode.valueIndex node),
                                 valueIndex = linkedListNode.valueIndex node,
                                 linkedList = this,
                                 next = linkedListNode.next node,
                                 previous = linkedListNode.previous node\<rparr>)))"

text \<open>
  \<open>PopHead\<close>.  \<open>node\<close> is a pointer into \<open>nodes\<close>, so its fields are read
  from the array as it is at the time of each read.  The result of \<open>Free\<close> is
  dropped, as in the source.
\<close>

definition PopHead_body ::
  "ref \<Rightarrow> 'a LinkedList \<Rightarrow> (error + 'a LinkedList \<times> 'a LinkedListNode option) option" where
  "PopHead_body this l =
     (if head l = 0 then Some (Inr (l, None))
      else
        (let nodeIndex = head l
         in if length (nodes l) \<le> unat nodeIndex then Some (Inl IndexOutOfRange)
            else
              (case Free (memory l) (nodeIndex - 1) 1 of
                 None \<Rightarrow> None
               | Some (Inl e) \<Rightarrow> Some (Inl e)
               | Some (Inr (ok, mem)) \<Rightarrow>
                   (let l1 = l\<lparr>memory := mem\<rparr>;
                        l2 = l1\<lparr>head := linkedListNode.next (nodes l1 ! unat nodeIndex)\<rparr>
                    in if head l2 \<noteq> 0 \<and> length (nodes l2) \<le> unat (head l2)
                       then Some (Inl IndexOutOfRange)
                       else
                         (let l3 = (if head l2 \<noteq> 0
                                    then l2\<lparr>nodes := (nodes l2)[unat (head l2) :=
                                           (nodes l2 ! unat (head l2))
                                             \<lparr>linkedListNode.previous := 0\<rparr>]\<rparr>
                                    else l2\<lparr>tail := 0\<rparr>);
                              l4 = l3\<lparr>size := LinkedList.size l3 - 1\<rparr>;
                              node = nodes l4 ! unat nodeIndex
                          in if length (values l4) \<le> unat (linkedListNode.valueIndex node)
                             then Some (Inl IndexOutOfRange)
                             else Some (Inr (l4,
                                    Some \<lparr>Value = values l4 ! unat (linkedListNode.valueIndex node),
                                          valueIndex = linkedListNode.valueIndex node,
                                          linkedList = this,
                                          next = linkedListNode.next node,
                                          previous = linkedListNode.previous node\<rparr>)))))))"

definition PopHead ::
  "'a heap \<Rightarrow> ref \<Rightarrow> (error + 'a heap \<times> 'a LinkedListNode option) option" where
  "PopHead H this =
     (case deref H this of
        Inl e \<Rightarrow> Some (Inl e)
      | Inr l \<Rightarrow>
          (case PopHead_body this l of
             None \<Rightarrow> None
           | Some (Inl e) \<Rightarrow> Some (Inl e)
           | Some (Inr (l', node)) \<Rightarrow> Some (Inr (store H this l', node))))"

text \<open>
  \<open>PopTail\<close>, the mirror image of \<open>PopHead\<close>.
\<close>

definition PopTail_body ::
  "ref \<Rightarrow> 'a LinkedList \<Rightarrow> (error + 'a LinkedList \<times> 'a LinkedListNode option) option" where
  "PopTail_body this l =
     (if tail l = 0 then Some (Inr (l, None))
      else
        (let nodeIndex = tail l
         in if length (nodes l) \<le> unat nodeIndex then Some (Inl IndexOutOfRange)
            else
              (case Free (memory l) (nodeIndex - 1) 1 of
                 None \<Rightarrow> None
               | Some (Inl e) \<Rightarrow> Some (Inl e)
               | Some (Inr (ok, mem)) \<Rightarrow>
                   (let l1 = l\<lparr>memory := mem\<rparr>;
                        l2 = l1\<lparr>tail := linkedListNode.previous (nodes l1 ! unat nodeIndex)\<rparr>
                    in if tail l2 \<noteq> 0 \<and> length (nodes l2) \<le> unat (tail l2)
                       then Some (Inl IndexOutOfRange)
                       else
                         (let l3 = (if tail l2 \<noteq> 0
                                    then l2\<lparr>nodes := (nodes l2)[unat (tail l2) :=
                                           (nodes l2 ! unat (tail l2))
                                             \<lparr>linkedListNode.next := 0\<rparr>]\<rparr>
                                    else l2\<lparr>head := 0\<rparr>);
                              l4 = l3\<lparr>size := LinkedList.size l3 - 1\<rparr>;
                              node = nodes l4 ! unat nodeIndex
                          in if length (values l4) \<le> unat (linkedListNode.valueIndex node)
                             then Some (Inl IndexOutOfRange)
                             else Some (Inr (l4,
                                    Some \<lparr>Value = values l4 ! unat (linkedListNode.valueIndex node),
                                          valueIndex = linkedListNode.valueIndex node,
                                          linkedList = this,
                                          next = linkedListNode.next node,
                                          previous = linkedListNode.previous node\<rparr>)))))))"

definition PopTail ::
  "'a heap \<Rightarrow> ref \<Rightarrow> (error + 'a heap \<times> 'a LinkedListNode option) option" where
  "PopTail H this =
     (case deref H this of
        Inl e \<Rightarrow> Some (Inl e)
      | Inr l \<Rightarrow>
          (case PopTail_body this l of
             None \<Rightarrow> None
           | Some (Inl e) \<Rightarrow> Some (Inl e)
           | Some (Inr (l', node)) \<Rightarrow> Some (Inr (store H this l', node))))"

text \<open>
  \<open>Prepend\<close>.
\<close>

definition Prepend_body :: "'a \<Rightarrow> 'a::zero LinkedList \<Rightarrow> (error + 'a LinkedList) option" where
  "Prepend_body v l =
     (case lease l of
        None \<Rightarrow> None
      | Some (Inl e) \<Rightarrow> Some (Inl e)
      | Some (Inr (newNodeIndex, l1)) \<Rightarrow>
          if length (values l1) \<le> unat newNodeIndex then Some (Inl IndexOutOfRange)
          else
            (let l2 = l1\<lparr>values := (values l1)[unat newNodeIndex := v]\<rparr>;
                 newNode = \<lparr>linkedListNode.next = head l2, previous = 0,
                            valueIndex = newNodeIndex\<rparr>
             in if length (nodes l2) \<le> unat newNodeIndex then Some (Inl IndexOutOfRange)
                else
                  (let l3 = l2\<lparr>nodes := (nodes l2)[unat newNodeIndex := newNode]\<rparr>
                   in if head l3 \<noteq> 0 \<and> length (nodes l3) \<le> unat (head l3)
                      then Some (Inl IndexOutOfRange)
                      else
                        (let l4 = (if head l3 \<noteq> 0
                                   then l3\<lparr>nodes := (nodes l3)[unat (head l3) :=
                                          (nodes l3 ! unat (head l3))
                                            \<lparr>linkedListNode.previous := newNodeIndex\<rparr>]\<rparr>
                                   else l3);
                             l5 = l4\<lparr>head := newNodeIndex\<rparr>;
                             l6 = (if tail l5 = 0 then l5\<lparr>tail := newNodeIndex\<rparr> else l5)
                         in Some (Inr (l6\<lparr>size := LinkedList.size l6 + 1\<rparr>))))))"

definition Prepend :: "'a::zero heap \<Rightarrow> ref \<Rightarrow> 'a \<Rightarrow> (error + 'a heap) option" where
  "Prepend H this v =
     (case deref H this of
        Inl e \<Rightarrow> Some (Inl e)
      | Inr l \<Rightarrow>
          (case Prepend_body v l of
             None \<Rightarrow> None
           | Some (Inl e) \<Rightarrow> Some (Inl e)
           | Some (Inr l') \<Rightarrow> Some (Inr (store H this l'))))"

text \<open>
  \<open>findNodeIndex\<close> walks from the head until a node slot has the handle's
  \<open>valueIndex\<close>, and answers 0 when the walk ends.  On a cyclic chain without such a
  node the loop does not end; the result is then \<open>None\<close>.
\<close>

partial_function (option) findNodeIndex_loop ::
  "linkedListNode list \<Rightarrow> 64 word \<Rightarrow> 64 word \<Rightarrow> (error + 64 word) option" where
  "findNodeIndex_loop ns vi currentIndex =
     (if currentIndex \<noteq> 0 then
        (if length ns \<le> unat currentIndex then Some (Inl IndexOutOfRange)
         else
           (let currentNode = ns ! unat currentIndex
            in if linkedListNode.valueIndex currentNode = vi then Some (Inr currentIndex)
               else findNodeIndex_loop ns vi (linkedListNode.next currentNode)))
      else Some (Inr 0))"

declare findNodeIndex_loop.simps [code]

definition findNodeIndex ::
  "'a LinkedList \<Rightarrow> 'a LinkedListNode \<Rightarrow> (error + 64 word) option" where
  "findNodeIndex l node = findNodeIndex_loop (nodes l) (valueIndex node) (head l)"

text \<open>
  \<open>Remove\<close>.  The node is unlinked through the handle's \<open>previous\<close> and
  \<open>next\<close>; then \<open>findNodeIndex\<close> is asked for the handle on the list as it is
  after unlinking, and its answer is passed to \<open>Free\<close>.
\<close>

definition Remove_body :: "'a LinkedList \<Rightarrow> 'a LinkedListNode \<Rightarrow> (error + 'a LinkedList) option" where
  "Remove_body l node =
     (if previous node \<noteq> 0 \<and> length (nodes l) \<le> unat (previous node)
      then Some (Inl IndexOutOfRange)
      else
        (let l1 = (if previous node \<noteq> 0
                   then l\<lparr>nodes := (nodes l)[unat (previous node) :=
                          (nodes l ! unat (previous node))
                            \<lparr>linkedListNode.next := next node\<rparr>]\<rparr>
                   else l\<lparr>head := next node\<rparr>)
         in if next node \<noteq> 0 \<and> length (nodes l1) \<le> unat (next node)
            then Some (Inl IndexOutOfRange)
            else
              (let l2 = (if next node \<noteq> 0
                         then l1\<lparr>nodes := (nodes l1)[unat (next node) :=
                                (nodes l1 ! unat (next node))
                                  \<lparr>linkedListNode.previous := previous node\<rparr>]\<rparr>
                         else l1\<lparr>tail := previous node\<rparr>)
               in case findNodeIndex l2 node of
                    None \<Rightarrow> None
                  | Some (Inl e) \<Rightarrow> Some (Inl e)
                  | Some (Inr index) \<Rightarrow>
                      (case Free (memory l2) index 1 of
                         None \<Rightarrow> None
                       | Some (Inl e) \<Rightarrow> Some (Inl e)
                       | Some (Inr (ok, mem)) \<Rightarrow>
                           (let l3 = l2\<lparr>memory := mem\<rparr>
                            in Some (Inr (l3\<lparr>size := LinkedList.size l3 - 1\<rparr>)))))))"

definition Remove ::
  "'a heap \<Rightarrow> ref \<Rightarrow> 'a LinkedListNode option \<Rightarrow> (error + 'a heap) option" where
  "Remove H this node =
     (case node of
        None \<Rightarrow> Some (Inr H)
      | Some n \<Rightarrow>
          if linkedList n = this then
            (case deref H this of
               Inl e \<Rightarrow> Some (Inl e)
             | Inr l \<Rightarrow>
                 (case Remove_body l n of
                    None \<Rightarrow> None
                  | Some (Inl e) \<Rightarrow> Some (Inl e)
                  | Some (Inr l') \<Rightarrow> Some (Inr (store H this l'))))
          else Some (Inr H))"

text \<open>
  \<open>Tail\<close> and \<open>Size\<close>.
\<close>

definition Tail :: "'a heap \<Rightarrow> ref \<Rightarrow> error + 'a LinkedListNode option" where
  "Tail H this =
     (case deref H this of
        Inl e \<Rightarrow> Inl e
      | Inr l \<Rightarrow>
          if tail l = 0 then Inr None
          else if length (nodes l) \<le> unat (tail l) then Inl IndexOutOfRange
          else
            (let node = nodes l ! unat (tail l)
             in if length (values l) \<le> unat (linkedListNode.valueIndex node)
                then Inl IndexOutOfRange
                else Inr (Some \<lparr>Value = values l ! unat (linkedListNode.valueIndex node),
                                 valueIndex = linkedListNode.valueIndex node,
                                 linkedList = this,
                                 next = linkedListNode.next node,
                                 previous = linkedListNode.previous node\<rparr>)))"

definition Size :: "'a heap \<Rightarrow> ref \<Rightarrow> error + 64 word" where
  "Size H this =
     (case deref H this of Inl e \<Rightarrow> Inl e | Inr l \<Rightarrow> Inr (LinkedList.size l))"

text \<open>
  \<open>InsertNext\<close> is a method of the handle.  It reaches the list through the
  handle's \<open>linkedList\<close> pointer, and it updates the handle's own \<open>next\<close>.
\<close>

definition InsertNext_body ::
  "'a LinkedListNode \<Rightarrow> 'a \<Rightarrow> 'a::zero LinkedList \<Rightarrow>
     (error + 'a LinkedList \<times> 'a LinkedListNode) option" where
  "InsertNext_body this v l =
     (case lease l of
        None \<Rightarrow> None
      | Some (Inl e) \<Rightarrow> Some (Inl e)
      | Some (Inr (newNodeIndex, l1)) \<Rightarrow>
          if length (values l1) \<le> unat newNodeIndex then Some (Inl IndexOutOfRange)
          else
            (let l2 = l1\<lparr>values := (values l1)[unat newNodeIndex := v]\<rparr>
             in case findNodeIndex l2 this of
                  None \<Rightarrow> None
                | Some (Inl e) \<Rightarrow> Some (Inl e)
                | Some (Inr thisIndex) \<Rightarrow>
                    (let newNode = \<lparr>linkedListNode.next = next this, previous = thisIndex,
                                    valueIndex = newNodeIndex\<rparr>
                     in if length (nodes l2) \<le> unat newNodeIndex then Some (Inl IndexOutOfRange)
                        else
                          (let l3 = l2\<lparr>nodes := (nodes l2)[unat newNodeIndex := newNode]\<rparr>
                           in if next this \<noteq> 0 \<and> length (nodes l3) \<le> unat (next this)
                              then Some (Inl IndexOutOfRange)
                              else
                                (let l4 = (if next this \<noteq> 0
                                           then l3\<lparr>nodes := (nodes l3)[unat (next this) :=
                                                  (nodes l3 ! unat (next this))
                                                    \<lparr>linkedListNode.previous := newNodeIndex\<rparr>]\<rparr>
                                           else l3\<lparr>tail := newNodeIndex\<rparr>)
                                 in if length (nodes l4) \<le> unat thisIndex
                                    then Some (Inl IndexOutOfRange)
                                    else
                                      (let l5 = l4\<lparr>nodes := (nodes l4)[unat thisIndex :=
                                                  (nodes l4 ! unat thisIndex)
                                                    \<lparr>linkedListNode.next := newNodeIndex\<rparr>]\<rparr>;
                                           this' = this\<lparr>next := newNodeIndex\<rparr>
                                       in Some (Inr (l5\<lparr>size := LinkedList.size l5 + 1\<rparr>,
                                                     this'))))))))"

definition InsertNext ::
  "'a::zero heap \<Rightarrow> 'a LinkedListNode option \<Rightarrow> 'a \<Rightarrow>
     (error + 'a heap \<times> 'a LinkedListNode) option" where
  "InsertNext H this v =
     (case this of
        None \<Rightarrow> Some (Inl NilDereference)
      | Some n \<Rightarrow>
          (case deref H (linkedList n) of
             Inl e \<Rightarrow> Some (Inl e)
           | Inr l \<Rightarrow>
               (case InsertNext_body n v l of
                  None \<Rightarrow> None
                | Some (Inl e) \<Rightarrow> Some (Inl e)
                | Some (Inr (l', n')) \<Rightarrow> Some (Inr (store H (linkedList n) l', n')))))"

text \<open>
  \<open>InsertPrevious\<close>.
\<close>

definition InsertPrevious_body ::
  "'a LinkedListNode \<Rightarrow> 'a \<Rightarrow> 'a::zero LinkedList \<Rightarrow>
     (error + 'a LinkedList \<times> 'a LinkedListNode) option" where
  "InsertPrevious_body this v l =
     (case lease l of
        None \<Rightarrow> None
      | Some (Inl e) \<Rightarrow> Some (Inl e)
      | Some (Inr (newNodeIndex, l1)) \<Rightarrow>
          if length (values l1) \<le> unat newNodeIndex then Some (Inl IndexOutOfRange)
          else
            (let l2 = l1\<lparr>values := (values l1)[unat newNodeIndex := v]\<rparr>
             in case findNodeIndex l2 this of
                  None \<Rightarrow> None
                | Some (Inl e) \<Rightarrow> Some (Inl e)
                | Some (Inr thisIndex) \<Rightarrow>
                    (let newNode = \<lparr>linkedListNode.next = thisIndex, previous = previous this,
                                    valueIndex = newNodeIndex\<rparr>
                     in if length (nodes l2) \<le> unat newNodeIndex then Some (Inl IndexOutOfRange)
                        else
                          (let l3 = l2\<lparr>nodes := (nodes l2)[unat newNodeIndex := newNode]\<rparr>
                           in if previous this \<noteq> 0 \<and> length (nodes l3) \<le> unat (previous this)
                              then Some (Inl IndexOutOfRange)
                              else
                                (let l4 = (if previous this \<noteq> 0
                                           then l3\<lparr>nodes := (nodes l3)[unat (previous this) :=
                                                  (nodes l3 ! unat (previous this))
                                                    \<lparr>linkedListNode.next := newNodeIndex\<rparr>]\<rparr>
                                           else l3\<lparr>head := newNodeIndex\<rparr>)
                                 in if length (nodes l4) \<le> unat thisIndex
                                    then Some (Inl IndexOutOfRange)
                                    else
                                      (let l5 = l4\<lparr>nodes := (nodes l4)[unat thisIndex :=
                                                  (nodes l4 ! unat thisIndex)
                                                    \<lparr>linkedListNode.previous := newNodeIndex\<rparr>]\<rparr>;
                                           this' = this\<lparr>previous := newNodeIndex\<rparr>
                                       in Some (Inr (l5\<lparr>size := LinkedList.size l5 + 1\<rparr>,
                                                     this'))))))))"

definition InsertPrevious ::
  "'a::zero heap \<Rightarrow> 'a LinkedListNode option \<Rightarrow> 'a \<Rightarrow>
     (error + 'a heap \<times> 'a LinkedListNode) option" where
  "InsertPrevious H this v =
     (case this of
        None \<Rightarrow> Some (Inl NilDereference)
      | Some n \<Rightarrow>
          (case deref H (linkedList n) of
             Inl e \<Rightarrow> Some (Inl e)
           | Inr l \<Rightarrow>
               (case InsertPrevious_body n v l of
                  None \<Rightarrow> None
                | Some (Inl e) \<Rightarrow> Some (Inl e)
                | Some (Inr (l', n')) \<Rightarrow> Some (Inr (store H (linkedList n) l', n')))))"

text \<open>
  \<open>Next\<close> and \<open>Previous\<close> build the handle of the neighbour.  Their struct
  literal names \<open>Value\<close>, \<open>linkedList\<close>, \<open>next\<close> and \<open>previous\<close>; the
  field \<open>valueIndex\<close> is not named and so holds Go's zero value.
\<close>

definition Next :: "'a::zero heap \<Rightarrow> 'a LinkedListNode option \<Rightarrow> error + 'a LinkedListNode option" where
  "Next H this =
     (case this of
        None \<Rightarrow> Inl NilDereference
      | Some n \<Rightarrow>
          if next n = 0 then Inr None
          else
            (case deref H (linkedList n) of
               Inl e \<Rightarrow> Inl e
             | Inr l \<Rightarrow>
                 if length (nodes l) \<le> unat (next n) then Inl IndexOutOfRange
                 else
                   (let node = nodes l ! unat (next n)
                    in if length (values l) \<le> unat (linkedListNode.valueIndex node)
                       then Inl IndexOutOfRange
                       else Inr (Some \<lparr>Value = values l ! unat (linkedListNode.valueIndex node),
                                        valueIndex = 0,
                                        linkedList = linkedList n,
                                        next = linkedListNode.next node,
                                        previous = linkedListNode.previous node\<rparr>))))"

definition Previous :: "'a::zero heap \<Rightarrow> 'a LinkedListNode option \<Rightarrow> error + 'a LinkedListNode option" where
  "Previous H this =
     (case this of
        None \<Rightarrow> Inl NilDereference
      | Some n \<Rightarrow>
          if previous n = 0 then Inr None
          else
            (case deref H (linkedList n) of
               Inl e \<Rightarrow> Inl e
             | Inr l \<Rightarrow>
                 if length (nodes l) \<le> unat (previous n) then Inl IndexOutOfRange
                 else
                   (let node = nodes l ! unat (previous n)
                    in if length (values l) \<le> unat (linkedListNode.valueIndex node)
                       then Inl IndexOutOfRange
                       else Inr (Some \<lparr>Value = values l ! unat (linkedListNode.valueIndex node),
                                        valueIndex = 0,
                                        linkedList = linkedList n,
                                        next = linkedListNode.next node,
                                        previous = linkedListNode.previous node\<rparr>))))"

section \<open>Specification predicates\<close>

text \<open>
  \<open>lower_bound sl target r\<close>: \<open>r\<close> is the number of elements below the target,
  which in an ascending slice all come first.
\<close>

definition lower_bound :: "'a::linorder list \<Rightarrow> 'a \<Rightarrow> nat \<Rightarrow> bool" where
  "lower_bound sl target r \<longleftrightarrow>
     r \<le> length sl \<and> (\<forall>j<r. sl ! j < target) \<and> (\<forall>j. r \<le> j \<and> j < length sl \<longrightarrow> target \<le> sl ! j)"

text \<open>
  The head-to-tail traversal a caller makes: \<open>Head()\<close>, then \<open>Next()\<close> until
  it answers nil, collecting the values.  On a cyclic chain it does not end.
\<close>

partial_function (option) walk ::
  "'a::zero heap \<Rightarrow> 'a LinkedListNode option \<Rightarrow> 'a list \<Rightarrow> (error + 'a list) option" where
  "walk H node acc =
     (case node of
        None \<Rightarrow> Some (Inr (rev acc))
      | Some n \<Rightarrow>
          (case Next H node of
             Inl e \<Rightarrow> Some (Inl e)
           | Inr node' \<Rightarrow> walk H node' (Value n # acc)))"

declare walk.simps [code]

definition traversal :: "'a::zero heap \<Rightarrow> ref \<Rightarrow> (error + 'a list) option" where
  "traversal H this =
     (case Head H this of Inl e \<Rightarrow> Some (Inl e) | Inr node \<Rightarrow> walk H node [])"


text \<open>
  Sequences of list operations.  A handle is obtained from the list right before it is
  used: by \<open>Head()\<close> followed by a number of \<open>Next()\<close>, or by \<open>Tail()\<close>
  followed by a number of \<open>Previous()\<close>.
\<close>

datatype locator = FromHead nat | FromTail nat

datatype 'a operation =
    OpAppend 'a | OpPrepend 'a | OpPopHead | OpPopTail
  | OpInsertNext locator 'a | OpInsertPrevious locator 'a | OpRemove locator

fun follow ::
  "('a LinkedListNode option \<Rightarrow> error + 'a LinkedListNode option) \<Rightarrow> nat \<Rightarrow>
     error + 'a LinkedListNode option \<Rightarrow> error + 'a LinkedListNode option" where
  "follow f 0 r = r"
| "follow f (Suc n) r = (case r of Inl e \<Rightarrow> Inl e | Inr node \<Rightarrow> follow f n (f node))"

definition locate :: "'a::zero heap \<Rightarrow> ref \<Rightarrow> locator \<Rightarrow> error + 'a LinkedListNode option" where
  "locate H p loc =
     (case loc of
        FromHead n \<Rightarrow> follow (Next H) n (Head H p)
      | FromTail n \<Rightarrow> follow (Previous H) n (Tail H p))"

definition step :: "'a::zero heap \<Rightarrow> ref \<Rightarrow> 'a operation \<Rightarrow> (error + 'a heap) option" where
  "step H p x =
     (case x of
        OpAppend v \<Rightarrow> Append H p v
      | OpPrepend v \<Rightarrow> Prepend H p v
      | OpPopHead \<Rightarrow> map_option (map_sum id fst) (PopHead H p)
      | OpPopTail \<Rightarrow> map_option (map_sum id fst) (PopTail H p)
      | OpInsertNext loc v \<Rightarrow>
          (case locate H p loc of
             Inl e \<Rightarrow> Some (Inl e)
           | Inr h \<Rightarrow> map_option (map_sum id fst) (InsertNext H h v))
      | OpInsertPrevious loc v \<Rightarrow>
          (case locate H p loc of
             Inl e \<Rightarrow> Some (Inl e)
           | Inr h \<Rightarrow> map_option (map_sum id fst) (InsertPrevious H h v))
      | OpRemove loc \<Rightarrow>
          (case locate H p loc of
             Inl e \<Rightarrow> Some (Inl e)
           | Inr h \<Rightarrow> Remove H p h))"

fun run :: "'a::zero heap \<Rightarrow> ref \<Rightarrow> 'a operation list \<Rightarrow> (error + 'a heap) option" where
  "run H p [] = Some (Inr H)"
| "run H p (x # xs) =
     (case step H p x of
        None \<Rightarrow> None
      | Some (Inl e) \<Rightarrow> Some (Inl e)
      | Some (Inr H') \<Rightarrow> run H' p xs)"

text \<open>
  The list a sequence of operations leaves, starting from \<open>NewLinkedList()\<close>.
\<close>

definition after :: "'a::zero operation list \<Rightarrow> (error + 'a LinkedList) option" where
  "after ops =
     (case NewLinkedList [] [] of
        None \<Rightarrow> None
      | Some (Inl e) \<Rightarrow> Some (Inl e)
      | Some (Inr (H, p)) \<Rightarrow>
          (case run H p ops of
             None \<Rightarrow> None
           | Some (Inl e) \<Rightarrow> Some (Inl e)
           | Some (Inr H') \<Rightarrow> Some (deref H' p)))"

text \<open>
  Heaps for the examples: two new lists at the addresses 0 and 1; the same with
  \<open>Append(5)\<close> on the second list; the same with sixteen \<open>Append\<close> on the
  second list, which fill the arrays of a list of the default size.
\<close>

definition two_lists :: "int heap" where
  "two_lists =
     fst (projr (the (NewLinkedList (fst (projr (the (NewLinkedList [] [])))) [])))"

definition second_holds_5 :: "int heap" where
  "second_holds_5 = projr (the (Append two_lists (Ref 1) 5))"

definition second_holds_16 :: "int heap" where
  "second_holds_16 = projr (the (run two_lists (Ref 1) (map OpAppend [1..16])))"

text \<open>
  The list invariant of the specification.  \<open>chain\<close> follows a link field from an
  index for at most a number of steps and stops at the sentinel; \<open>walks\<close> says
  that the walk from \<open>first\<close> visits exactly \<open>n\<close> distinct nodes, the last of
  them \<open>final\<close>, and then reaches the sentinel.
\<close>

fun chain ::
  "(linkedListNode \<Rightarrow> 64 word) \<Rightarrow> linkedListNode list \<Rightarrow> nat \<Rightarrow> 64 word \<Rightarrow> 64 word list option" where
  "chain link ns 0 i = Some []"
| "chain link ns (Suc n) i =
     (if i = 0 then Some []
      else if length ns \<le> unat i then None
      else map_option (Cons i) (chain link ns n (link (ns ! unat i))))"

definition walks ::
  "(linkedListNode \<Rightarrow> 64 word) \<Rightarrow> linkedListNode list \<Rightarrow> nat \<Rightarrow> 64 word \<Rightarrow> 64 word \<Rightarrow> bool" where
  "walks link ns n first final =
     (case chain link ns (Suc n) first of
        None \<Rightarrow> False
      | Some path \<Rightarrow>
          length path = n \<and> distinct path \<and>
          (if path = [] then final = 0 else last path = final))"

definition list_invariant :: "'a LinkedList \<Rightarrow> bool" where
  "list_invariant l \<longleftrightarrow>
     (head l = 0) = (LinkedList.size l = 0) \<and>
     (LinkedList.size l = 0) = (tail l = 0) \<and>
     walks linkedListNode.next (nodes l) (unat (LinkedList.size l)) (head l) (tail l) \<and>
     walks linkedListNode.previous (nodes l) (unat (LinkedList.size l)) (tail l) (head l)"

section \<open>Properties of package sorted\<close>

subsection \<open>Arithmetic of the index computations\<close>

lemma wrap64_id: "- (2 ^ 63) \<le> x \<Longrightarrow> x < 2 ^ 63 \<Longrightarrow> wrap64 x = x"
  unfolding wrap64_def by (simp add: mod_pos_pos_trivial)

lemma sdiv2_nonneg: "0 \<le> (x::int) \<Longrightarrow> x sdiv 2 = x div 2"
  by (simp add: signed_divide_int_def sgn_if)

lemma mid_eq:
  assumes "lo < hi" "hi < 2 ^ 62"
  shows "wrap64 (int lo + int hi) sdiv 2 = int ((lo + hi) div 2)"
proof -
  have "int lo + int hi < 2 ^ 63" using assms by simp
  then have "wrap64 (int lo + int hi) = int lo + int hi"
    by (intro wrap64_id) simp_all
  then show ?thesis by (simp add: sdiv2_nonneg zdiv_int)
qed

lemma BinarySearchInt_loop_done:
  "\<not> low < high \<Longrightarrow> BinarySearchInt_loop sl target low high = Some (Inr low)"
  by (subst BinarySearchInt_loop.simps) simp

lemma BinarySearchInt_loop_step:
  assumes "lo < hi" "hi \<le> length sl" "length sl < 2 ^ 62"
  shows "BinarySearchInt_loop sl target (int lo) (int hi) =
           (if sl ! ((lo + hi) div 2) < target
            then BinarySearchInt_loop sl target (int (Suc ((lo + hi) div 2))) (int hi)
            else BinarySearchInt_loop sl target (int lo) (int ((lo + hi) div 2)))"
proof -
  have hi62: "hi < 2 ^ 62" using assms by simp
  have m: "wrap64 (int lo + int hi) sdiv 2 = int ((lo + hi) div 2)"
    by (rule mid_eq [OF assms(1) hi62])
  have inb: "(lo + hi) div 2 < length sl" using assms by simp
  have s: "int (Suc ((lo + hi) div 2)) = int ((lo + hi) div 2) + 1" by simp
  show ?thesis
    apply (subst BinarySearchInt_loop.simps)
    apply (simp only: m s Let_def)
    using assms(1) inb apply simp
    done
qed

lemma BinarySearchInt_loop_total:
  assumes "lo \<le> hi" "hi \<le> length sl" "length sl < 2 ^ 62"
  shows "\<exists>r. BinarySearchInt_loop sl target (int lo) (int hi) = Some (Inr (int r)) \<and> lo \<le> r \<and> r \<le> hi"
  using assms
proof (induction "hi - lo" arbitrary: lo hi rule: less_induct)
  case less
  show ?case
  proof (cases "lo < hi")
    case False
    then show ?thesis using less.prems
      by (simp add: BinarySearchInt_loop_done)
  next
    case True
    define mid where "mid = (lo + hi) div 2"
    have bounds: "lo \<le> mid" "mid < hi" using True by (simp_all add: mid_def)
    note step = BinarySearchInt_loop_step [OF True less.prems(2,3), of target, folded mid_def]
    show ?thesis
    proof (cases "sl ! mid < target")
      case lt: True
      have "\<exists>r. BinarySearchInt_loop sl target (int (Suc mid)) (int hi) = Some (Inr (int r)) \<and> Suc mid \<le> r \<and> r \<le> hi"
        using bounds less.prems by (intro less.hyps) simp_all
      then show ?thesis using lt bounds unfolding step by auto
    next
      case ge: False
      have "\<exists>r. BinarySearchInt_loop sl target (int lo) (int mid) = Some (Inr (int r)) \<and> lo \<le> r \<and> r \<le> mid"
        using bounds less.prems True by (intro less.hyps) simp_all
      then show ?thesis using ge bounds unfolding step by auto
    qed
  qed
qed



lemma BinarySearchInt_loop_sorted:
  assumes "sorted sl" "length sl < 2 ^ 62" "lo \<le> hi" "hi \<le> length sl"
    and "\<forall>j<lo. sl ! j < target" and "\<forall>j. hi \<le> j \<and> j < length sl \<longrightarrow> target \<le> sl ! j"
  shows "\<exists>r. BinarySearchInt_loop sl target (int lo) (int hi) = Some (Inr (int r)) \<and>
             lower_bound sl target r"
  using assms(3-)
proof (induction "hi - lo" arbitrary: lo hi rule: less_induct)
  case less
  show ?case
  proof (cases "lo < hi")
    case False
    then have eq: "lo = hi" using less.prems by simp
    have "lower_bound sl target lo"
      using less.prems eq by (simp add: lower_bound_def)
    then show ?thesis using False by (auto simp: BinarySearchInt_loop_done)
  next
    case True
    define mid where "mid = (lo + hi) div 2"
    have bounds: "lo \<le> mid" "mid < hi" using True by (simp_all add: mid_def)
    note step = BinarySearchInt_loop_step [OF True less.prems(2) assms(2), of target, folded mid_def]
    show ?thesis
    proof (cases "sl ! mid < target")
      case lt: True
      have "\<forall>j<Suc mid. sl ! j < target"
      proof (intro allI impI)
        fix j assume "j < Suc mid"
        then have "sl ! j \<le> sl ! mid"
          using assms(1) bounds less.prems by (intro sorted_nth_mono) simp_all
        then show "sl ! j < target" using lt by simp
      qed
      then have "\<exists>r. BinarySearchInt_loop sl target (int (Suc mid)) (int hi) =
           Some (Inr (int r)) \<and> lower_bound sl target r"
        using bounds less.prems by (intro less.hyps) simp_all
      then show ?thesis using lt unfolding step by simp
    next
      case ge: False
      have "\<forall>j. mid \<le> j \<and> j < length sl \<longrightarrow> target \<le> sl ! j"
      proof (intro allI impI)
        fix j assume "mid \<le> j \<and> j < length sl"
        then have "sl ! mid \<le> sl ! j"
          using assms(1) by (intro sorted_nth_mono) simp_all
        then show "target \<le> sl ! j" using ge by simp
      qed
      then have "\<exists>r. BinarySearchInt_loop sl target (int lo) (int mid) =
           Some (Inr (int r)) \<and> lower_bound sl target r"
        using bounds less.prems True by (intro less.hyps) simp_all
      then show ?thesis using ge unfolding step by simp
    qed
  qed
qed

lemma BinarySearchInt_first_stop:
  assumes "r < length sl" "\<forall>j<r. sl ! j \<noteq> target"
  shows "BinarySearchInt_first sl target (int r) = Inr (int r)"
proof (cases r)
  case 0
  then show ?thesis by (subst BinarySearchInt_first.simps) simp
next
  case (Suc k)
  then have "sl ! k \<noteq> target" using assms by simp
  moreover have "nat (int (Suc k) - 1) = k" by simp
  ultimately show ?thesis using assms Suc
    by (subst BinarySearchInt_first.simps) simp
qed

lemma BinarySearchInt_first_total:
  assumes "r \<le> length sl"
  shows "\<exists>r'. BinarySearchInt_first sl target (int r) = Inr (int r') \<and> r' \<le> r"
  using assms
proof (induction r)
  case 0
  then show ?case by (subst BinarySearchInt_first.simps) simp
next
  case (Suc k)
  have k: "nat (int (Suc k) - 1) = k" "int (Suc k) - 1 = int k" by simp_all
  have step: "BinarySearchInt_first sl target (int (Suc k)) =
      (if sl ! k = target then BinarySearchInt_first sl target (int k) else Inr (int (Suc k)))"
    using Suc.prems by (subst BinarySearchInt_first.simps) (simp only: k, simp)
  from Suc obtain r' where "BinarySearchInt_first sl target (int k) = Inr (int r')" "r' \<le> k"
    by auto
  then show ?case unfolding step
    by (cases "sl ! k = target") (auto intro: exI [of _ "Suc k"])
qed

lemma BinarySearchInt_sorted:
  assumes "sorted sl" "length sl < 2 ^ 62"
  shows "\<exists>r. BinarySearchInt sl target = Some (Inr (int r, r < length sl \<and> sl ! r = target)) \<and>
             lower_bound sl target r"
proof -
  have "\<exists>r. BinarySearchInt_loop sl target (int 0) (int (length sl)) = Some (Inr (int r)) \<and>
             lower_bound sl target r"
    using assms by (intro BinarySearchInt_loop_sorted) auto
  then obtain r where r: "BinarySearchInt_loop sl target 0 (int (length sl)) = Some (Inr (int r))"
    and lb: "lower_bound sl target r" by auto
  have "BinarySearchInt sl target = Some (Inr (int r, r < length sl \<and> sl ! r = target))"
  proof (cases "r < length sl \<and> sl ! r = target")
    case True
    have "\<forall>j<r. sl ! j \<noteq> target" using lb by (auto simp: lower_bound_def)
    then have "BinarySearchInt_first sl target (int r) = Inr (int r)"
      using True by (intro BinarySearchInt_first_stop) simp_all
    then show ?thesis using True r by (simp add: BinarySearchInt_def)
  next
    case False
    then show ?thesis using r by (auto simp add: BinarySearchInt_def)
  qed
  then show ?thesis using lb by blast
qed

lemma BinarySearchInt_total:
  assumes "length sl < 2 ^ 62"
  shows "\<exists>r found. BinarySearchInt sl target = Some (Inr (int r, found)) \<and> r \<le> length sl"
proof -
  have "\<exists>r. BinarySearchInt_loop sl target (int 0) (int (length sl)) = Some (Inr (int r)) \<and> 0 \<le> r \<and> r \<le> length sl"
    using assms by (intro BinarySearchInt_loop_total) simp_all
  then obtain r where r: "BinarySearchInt_loop sl target 0 (int (length sl)) = Some (Inr (int r))"
    and le: "r \<le> length sl" by auto
  obtain r' where r': "BinarySearchInt_first sl target (int r) = Inr (int r')" "r' \<le> r"
    using BinarySearchInt_first_total [OF le] by blast
  show ?thesis using r r' le by (auto simp: BinarySearchInt_def)
qed


subsection \<open>Totality and results of the searches\<close>

lemma subslice_Inr:
  "lo \<le> hi \<Longrightarrow> hi \<le> length s \<Longrightarrow>
   subslice s (int lo) (int hi) = Inr (take (hi - lo) (drop lo s))"
  by (simp add: subslice_def)

lemma wrap64_nonneg_id:
  assumes "0 \<le> x" "x < 2 ^ 64" "0 \<le> wrap64 x"
  shows "wrap64 x = x"
proof (cases "x < 2 ^ 63")
  case True
  then show ?thesis using assms by (intro wrap64_id) simp_all
next
  case False
  then have "(x + 2 ^ 63) mod 2 ^ 64 = x + 2 ^ 63 - 2 ^ 64"
    using assms by (simp add: mod_pos_geq mod_pos_pos_trivial)
  then have "wrap64 x = x - 2 ^ 64" by (simp add: wrap64_def)
  then show ?thesis using assms by simp
qed

lemma GallopingSearchInt_loop_total:
  assumes "length sl < 2 ^ 62" "p < length sl" "0 < span" "span \<le> int p + 64"
  shows "\<exists>r found. GallopingSearchInt_loop sl target (int p) span = Some (Inr (int r, found))"
  using assms(2-)
proof (induction "length sl - p" arbitrary: p span rule: less_induct)
  case less
  define c where "c = wrap64 (int p + span)"
  have len62: "int (length sl) < 2 ^ 62" using assms(1) by simp
  have p62: "int p < 2 ^ 62" using less.prems len62 by simp
  have sub_total: "\<exists>r found. (case subslice sl (int p) (int hi) of
              Inl e \<Rightarrow> Some (Inl e) | Inr sub \<Rightarrow> BinarySearchInt sub target) = Some (Inr (int r, found))"
    if "p \<le> hi" "hi \<le> length sl" for hi
  proof -
    have "length (take (hi - p) (drop p sl)) < 2 ^ 62" using assms(1) by simp
    from BinarySearchInt_total [OF this, of target] show ?thesis
      using that by (auto simp: subslice_Inr)
  qed
  show ?case
  proof (cases "c < 0 \<or> int (length sl) \<le> c")
    case True
    have len1: "int (length sl) - 1 + 1 = int (length sl)" by simp
    have "GallopingSearchInt_loop sl target (int p) span =
        (case subslice sl (int p) (int (length sl)) of
              Inl e \<Rightarrow> Some (Inl e) | Inr sub \<Rightarrow> BinarySearchInt sub target)"
      using True
      by (subst GallopingSearchInt_loop.simps) (simp only: c_def [symmetric] Let_def len1, simp)
    then show ?thesis using sub_total [of "length sl"] less.prems by simp
  next
    case False
    then have c0: "0 \<le> c" and clen: "c < int (length sl)" by simp_all
    have "int p + span < 2 ^ 64" using less.prems(3) p62 by simp
    then have c_eq: "c = int p + span"
      unfolding c_def using less.prems(2) c0 [unfolded c_def] by (intro wrap64_nonneg_id) simp_all
    define cur where "cur = nat c"
    have cur: "c = int cur" using c0 by (simp add: cur_def)
    have inb: "cur < length sl" using clen cur by simp
    have cur_gt: "p < cur" using c_eq cur less.prems(2) by simp
    show ?thesis
    proof (cases "sl ! cur < target")
      case True
      have "span < 2 ^ 62" using c_eq clen len62 by simp
      then have span2: "wrap64 (span * 2) = span * 2"
        using less.prems(2) by (intro wrap64_id) simp_all
      have "GallopingSearchInt_loop sl target (int p) span =
          GallopingSearchInt_loop sl target (int cur) (span * 2)"
        using True inb False
        by (subst GallopingSearchInt_loop.simps)
           (simp only: c_def [symmetric] Let_def span2, simp add: cur)
      moreover have "\<exists>r found. GallopingSearchInt_loop sl target (int cur) (span * 2) = Some (Inr (int r, found))"
      proof (rule less.hyps)
        show "length sl - cur < length sl - p" using inb cur_gt by simp
        show "cur < length sl" by (rule inb)
        show "0 < span * 2" using less.prems(2) by simp
        show "span * 2 \<le> int cur + 64" using c_eq cur less.prems(3) by simp
      qed
      ultimately show ?thesis by simp
    next
      case ge: False
      have c1: "int cur + 1 = int (Suc cur)" by simp
      have "GallopingSearchInt_loop sl target (int p) span =
        (case subslice sl (int p) (int cur + 1) of
              Inl e \<Rightarrow> Some (Inl e) | Inr sub \<Rightarrow> BinarySearchInt sub target)"
        using ge inb False
        by (subst GallopingSearchInt_loop.simps)
           (simp only: c_def [symmetric] Let_def, simp add: cur)
      then show ?thesis using sub_total [of "Suc cur"] inb cur_gt by (simp only: c1)
    qed
  qed
qed

text \<open>
  Claim C10.  \<open>GallopingSearchInt\<close> is total and reads inside the slice only: on every
  slice, ascending or not, empty, shorter or longer than the threshold of 64, and for every
  target, it returns a pair \<open>(index, found)\<close>; it neither panics on an index or a slice
  bound nor probes forever.  The length bound is the one every Go slice of integers meets
  (a slice of \<open>2 ^ 62\<close> elements does not fit the address space); it keeps
  \<open>low + high\<close> of the final binary search inside the 64-bit range.
\<close>

theorem GallopingSearchInt_returns:
  assumes "length sl < 2 ^ 62"
  shows "\<exists>index found. GallopingSearchInt sl target = Some (Inr (index, found))"
proof (cases "length sl < 64")
  case True
  then show ?thesis
    using BinarySearchInt_total [OF assms, of target] by (auto simp: GallopingSearchInt_def)
next
  case False
  then have "0 < length sl" by auto
  from GallopingSearchInt_loop_total [OF assms this, of 64 target]
  show ?thesis using False by (auto simp: GallopingSearchInt_def)
qed

text \<open>
  Claim C6.  On an ascending slice \<open>BinarySearchInt\<close> returns \<open>(0, false)\<close> for the
  empty slice and for a target below every element, \<open>(len, false)\<close> for a target above
  every element, and whenever \<open>found\<close> is true the index is inside the slice, holds the
  target, and no smaller index does: it is the first occurrence, also in a run of
  duplicates.  Besides, \<open>found\<close> is true exactly when the target occurs.
\<close>

theorem BinarySearchInt_first_occurrence:
  assumes "sorted sl" "length sl < 2 ^ 62"
  shows "\<exists>index found. BinarySearchInt sl target = Some (Inr (index, found)) \<and>
     (sl = [] \<longrightarrow> index = 0 \<and> \<not> found) \<and>
     ((\<forall>x\<in>set sl. target < x) \<longrightarrow> index = 0 \<and> \<not> found) \<and>
     ((\<forall>x\<in>set sl. x < target) \<longrightarrow> index = int (length sl) \<and> \<not> found) \<and>
     (found \<longrightarrow> 0 \<le> index \<and> index < int (length sl) \<and> sl ! nat index = target \<and>
        (\<forall>j<nat index. sl ! j \<noteq> target)) \<and>
     (found \<longleftrightarrow> target \<in> set sl)"
proof -
  obtain r where r: "BinarySearchInt sl target = Some (Inr (int r, r < length sl \<and> sl ! r = target))"
    and lb: "lower_bound sl target r"
    using BinarySearchInt_sorted [OF assms] by blast
  have le: "r \<le> length sl" and below: "\<And>j. j < r \<Longrightarrow> sl ! j < target"
    and above: "\<And>j. r \<le> j \<Longrightarrow> j < length sl \<Longrightarrow> target \<le> sl ! j"
    using lb by (auto simp: lower_bound_def)
  define found where "found \<longleftrightarrow> r < length sl \<and> sl ! r = target"
  have res: "BinarySearchInt sl target = Some (Inr (int r, found))"
    using r by (simp add: found_def)
  have e: "sl = [] \<longrightarrow> int r = 0 \<and> \<not> found" using le by (auto simp: found_def)
  have small: "(\<forall>x\<in>set sl. target < x) \<longrightarrow> int r = 0 \<and> \<not> found"
  proof
    assume a: "\<forall>x\<in>set sl. target < x"
    have "r = 0"
    proof (rule ccontr)
      assume "r \<noteq> 0"
      then have "0 < r" by simp
      then have "sl ! 0 < target" by (rule below)
      moreover have "sl ! 0 \<in> set sl" using \<open>0 < r\<close> le by (intro nth_mem) auto
      ultimately show False using a by fastforce
    qed
    moreover have "\<not> found" using a by (fastforce simp: found_def)
    ultimately show "int r = 0 \<and> \<not> found" by simp
  qed
  have large: "(\<forall>x\<in>set sl. x < target) \<longrightarrow> int r = int (length sl) \<and> \<not> found"
  proof
    assume a: "\<forall>x\<in>set sl. x < target"
    have "r = length sl"
    proof (rule ccontr)
      assume "r \<noteq> length sl"
      then have lt: "r < length sl" using le by simp
      then have "target \<le> sl ! r" by (intro above) simp_all
      moreover have "sl ! r \<in> set sl" using lt by simp
      ultimately show False using a by fastforce
    qed
    then show "int r = int (length sl) \<and> \<not> found" by (simp add: found_def)
  qed
  have first: "found \<longrightarrow> 0 \<le> int r \<and> int r < int (length sl) \<and> sl ! nat (int r) = target \<and>
        (\<forall>j<nat (int r). sl ! j \<noteq> target)"
    using below by (fastforce simp: found_def)
  have mem: "found \<longleftrightarrow> target \<in> set sl"
  proof
    assume found
    then show "target \<in> set sl" unfolding found_def by (metis nth_mem)
  next
    assume "target \<in> set sl"
    then obtain j where j: "j < length sl" "sl ! j = target" by (auto simp: in_set_conv_nth)
    have "\<not> j < r" using below j by fastforce
    then have rj: "r \<le> j" by simp
    then have "sl ! r \<le> sl ! j" using assms(1) j by (intro sorted_nth_mono) simp_all
    moreover have "target \<le> sl ! r" using rj j by (intro above) simp_all
    ultimately show found using j rj by (simp add: found_def)
  qed
  from res e small large first mem show ?thesis by blast
qed

theorem BinarySearchInt_first_occurrence_witness:
  "BinarySearchInt ([] :: int list) 5 = Some (Inr (0, False)) \<and>
   BinarySearchInt [2, 4, 6 :: int] 1 = Some (Inr (0, False)) \<and>
   BinarySearchInt [2, 4, 6 :: int] 9 = Some (Inr (3, False)) \<and>
   BinarySearchInt [1, 3, 5, 7, 7, 7 :: int] 7 = Some (Inr (3, True))"
proof -
  have "BinarySearchInt ([] :: int list) 5 = Some (Inr (0, False))"
    using BinarySearchInt_first_occurrence [of "[] :: int list" 5] by auto
  moreover have "BinarySearchInt [2, 4, 6 :: int] 1 = Some (Inr (0, False))"
    using BinarySearchInt_first_occurrence [of "[2, 4, 6 :: int]" 1] by auto
  moreover have "BinarySearchInt [2, 4, 6 :: int] 9 = Some (Inr (3, False))"
    using BinarySearchInt_first_occurrence [of "[2, 4, 6 :: int]" 9] by auto
  moreover have "BinarySearchInt [1, 3, 5, 7, 7, 7 :: int] 7 = Some (Inr (3, True))"
  proof -
    have s: "sorted [1, 3, 5, 7, 7, 7 :: int]" by simp
    have l: "length [1, 3, 5, 7, 7, 7 :: int] < 2 ^ 62" by simp
    have v: "BinarySearchInt [1, 3, 5, 7, 7, 7 :: int] 7 = Some (Inr (3, True))" by code_simp
    from BinarySearchInt_first_occurrence [OF s l, of 7] v show ?thesis by simp
  qed
  ultimately show ?thesis by simp
qed

theorem GallopingSearchInt_returns_witness:
  "length (map int [0..<65]) < 2 ^ 62 \<and>
   (\<exists>index found. GallopingSearchInt (map int [0..<65]) 100 = Some (Inr (index, found)))"
proof -
  have l: "length (map int [0..<65]) < 2 ^ 62" by simp
  from GallopingSearchInt_returns [OF l, of 100] l show ?thesis by simp
qed


text \<open>
  Claim C1.  On the ascending slice \<open>0, 1, \<dots>, 64\<close> and the target 100 the first
  probe, at index 64, is below the target, so the second bracket starts at 64; the
  binary search of \<open>slice[64:65]\<close> answers 1, an index into that sub-slice, and
  \<open>GallopingSearchInt\<close> returns it without adding 64, where \<open>BinarySearchInt\<close>
  returns 65.
\<close>

theorem GallopingSearchInt_subslice_index:
  "sorted (map int [0..<65]) \<and>
   GallopingSearchInt (map int [0..<65]) 100 = Some (Inr (1, False)) \<and>
   BinarySearchInt (map int [0..<65]) 100 = Some (Inr (65, False))"
  by code_simp

text \<open>
  Claim C2.  \<open>InsertInt\<close> inserts where \<open>GallopingSearchInt\<close> says, so on the same
  slice the value 100 lands at index 1, between 0 and 1, and the result is not ascending.
\<close>

theorem InsertInt_misplaces:
  "sorted (map int [0..<65]) \<and>
   InsertInt (map int [0..<65]) 100 True = Some (Inr (0 # 100 # map int [1..<65])) \<and>
   \<not> sorted (0 # 100 # map int [1..<65])"
  by code_simp

section \<open>Properties of package contracts\<close>

text \<open>
  Claim C9.  The conversions round-trip as the contract says: \<open>AsDecimal\<close> of
  \<open>MakePercentFromDecimal(d)\<close> is \<open>d\<close> itself, and \<open>AsPercentage\<close> of
  \<open>MakePercent(p)\<close> is \<open>(p / 100) * 100\<close>, whatever the division, the
  multiplication and the constant of \<open>float64\<close> are.
\<close>

theorem Percent_round_trip:
  "AsDecimal (MakePercentFromDecimal d) = d \<and>
   AsPercentage fmul hundred (MakePercent fdiv hundred p) = fmul (fdiv p hundred) hundred"
  by (simp add: AsDecimal_def MakePercentFromDecimal_def AsPercentage_def MakePercent_def)

section \<open>Properties of package ll\<close>

text \<open>
  Claim C8.  From an empty list, \<open>Append(1)\<close>, \<open>Append(2)\<close>, \<open>Prepend(0)\<close>
  give the traversal \<open>[0, 1, 2]\<close>; \<open>PopHead()\<close> then returns a handle of value 0
  and leaves the traversal \<open>[1, 2]\<close> and the size 2.
\<close>

theorem scenario_append_prepend_popHead:
  "case NewLinkedList ([] :: int heap) [] of
     Some (Inr (H0, p)) \<Rightarrow>
       (case Append H0 p 1 of
          Some (Inr H1) \<Rightarrow>
            (case Append H1 p 2 of
               Some (Inr H2) \<Rightarrow>
                 (case Prepend H2 p 0 of
                    Some (Inr H3) \<Rightarrow>
                      traversal H3 p = Some (Inr [0, 1, 2]) \<and>
                      (case PopHead H3 p of
                         Some (Inr (H4, Some h)) \<Rightarrow>
                           Value h = 0 \<and> traversal H4 p = Some (Inr [1, 2]) \<and>
                           Size H4 p = Inr 2
                       | _ \<Rightarrow> False)
                  | _ \<Rightarrow> False)
             | _ \<Rightarrow> False)
        | _ \<Rightarrow> False)
   | _ \<Rightarrow> False"
  by code_simp

text \<open>
  Claim C7.  After \<open>Append(1)\<close>, \<open>Append(2)\<close> the second node lives in slot 2.
  \<open>Tail()\<close> snapshots it with \<open>valueIndex = 2\<close>; \<open>Head().Next()\<close> denotes the
  same node, and its handle has \<open>valueIndex = 0\<close>.
\<close>

theorem Next_drops_valueIndex:
  "case NewLinkedList ([] :: int heap) [] of
     Some (Inr (H0, p)) \<Rightarrow>
       (case Append H0 p 1 of
          Some (Inr H1) \<Rightarrow>
            (case Append H1 p 2 of
               Some (Inr H2) \<Rightarrow>
                 Tail H2 p = Inr (Some \<lparr>Value = 2, valueIndex = 2, linkedList = p,
                                         next = 0, previous = 1\<rparr>) \<and>
                 (case Head H2 p of
                    Inl e \<Rightarrow> False
                  | Inr h \<Rightarrow>
                      Next H2 h = Inr (Some \<lparr>Value = 2, valueIndex = 0, linkedList = p,
                                              next = 0, previous = 1\<rparr>))
             | _ \<Rightarrow> False)
        | _ \<Rightarrow> False)
   | _ \<Rightarrow> False"
  by code_simp

text \<open>
  Claim C3.  After \<open>Append(1)\<close>, \<open>Append(2)\<close> the handle \<open>Tail()\<close> is that of
  slot 2, whose allocator offset is 1.  \<open>Remove\<close> unlinks the node and decrements the
  size, and the allocator it leaves is the one \<open>Free(0, 1)\<close> leaves, not the one
  \<open>Free(1, 1)\<close> leaves: offset 0, the slot of the head that is still in the list,
  is in a free list, and offset 1 is in none.
\<close>

theorem Remove_frees_offset_zero:
  "case NewLinkedList ([] :: int heap) [] of
     Some (Inr (H0, p)) \<Rightarrow>
       (case Append H0 p 1 of
          Some (Inr H1) \<Rightarrow>
            (case Append H1 p 2 of
               Some (Inr H2) \<Rightarrow>
                 (case Tail H2 p of
                    Inr (Some h) \<Rightarrow>
                      valueIndex h = 2 \<and>
                      (case Remove H2 p (Some h) of
                         Some (Inr H3) \<Rightarrow>
                           (case (deref H2 p, deref H3 p) of
                              (Inr l2, Inr l3) \<Rightarrow>
                                head l3 = 1 \<and> tail l3 = 1 \<and> LinkedList.size l3 = 1 \<and>
                                Free (memory l2) 0 1 = Some (Inr (True, memory l3)) \<and>
                                map_option (map_sum id snd)
                                    (Free (memory l2) (valueIndex h - 1) 1)
                                  \<noteq> Some (Inr (memory l3)) \<and>
                                0 \<in> set (concat (freeLists (memory l3))) \<and>
                                1 \<notin> set (concat (freeLists (memory l3)))
                            | _ \<Rightarrow> False)
                       | _ \<Rightarrow> False)
                  | _ \<Rightarrow> False)
             | _ \<Rightarrow> False)
        | _ \<Rightarrow> False)
   | _ \<Rightarrow> False"
  by code_simp

text \<open>
  Claim C4.  \<open>InsertNext\<close> and \<open>InsertPrevious\<close> are methods of the handle and
  take no list.  On a nil handle their first statement reads \<open>this.linkedList\<close> and
  panics.  Through the handle of the head of the second list they do not leave things as
  they are either: where that list holds one value they return normally and have
  inserted into it, and where it holds sixteen they panic on the seventeenth slot.
\<close>

theorem InsertNext_not_a_noop:
  "length two_lists = 2 \<and>
   InsertNext two_lists None 7 = Some (Inl NilDereference) \<and>
   InsertPrevious two_lists None 7 = Some (Inl NilDereference) \<and>
   linkedList (the (projr (Head second_holds_5 (Ref 1)))) = Ref 1 \<and>
   traversal second_holds_5 (Ref 1) = Some (Inr [5]) \<and>
   traversal
     (fst (projr (the (InsertNext second_holds_5 (projr (Head second_holds_5 (Ref 1))) 9))))
     (Ref 1) = Some (Inr [5, 9]) \<and>
   traversal
     (fst (projr (the (InsertPrevious second_holds_5 (projr (Head second_holds_5 (Ref 1))) 9))))
     (Ref 1) = Some (Inr [9, 5]) \<and>
   linkedList (the (projr (Head second_holds_16 (Ref 1)))) = Ref 1 \<and>
   Size second_holds_16 (Ref 1) = Inr 16 \<and>
   InsertNext second_holds_16 (projr (Head second_holds_16 (Ref 1))) 9
     = Some (Inl IndexOutOfRange) \<and>
   InsertPrevious second_holds_16 (projr (Head second_holds_16 (Ref 1))) 9
     = Some (Inl IndexOutOfRange)"
  by code_simp

text \<open>
  Claim C4, as amended.  \<open>Remove\<close> with a nil handle, or with a handle whose owner is
  not the receiver, returns normally and leaves the whole heap, that is every list, as it
  is.
\<close>

theorem Remove_foreign_handle_noop:
  "Remove H this None = Some (Inr H) \<and>
   (linkedList n \<noteq> this \<longrightarrow> Remove H this (Some n) = Some (Inr H))"
  by (simp add: Remove_def)

theorem Remove_foreign_handle_noop_witness:
  "case NewLinkedList ([] :: int heap) [] of
     Some (Inr (Ha, pa)) \<Rightarrow>
       (case NewLinkedList Ha [] of
          Some (Inr (Hb, pb)) \<Rightarrow>
            (case Append Hb pb 5 of
               Some (Inr H) \<Rightarrow>
                 (case Head H pb of
                    Inr (Some n) \<Rightarrow>
                      linkedList n \<noteq> pa \<and>
                      Remove H pa None = Some (Inr H) \<and>
                      Remove H pa (Some n) = Some (Inr H)
                  | _ \<Rightarrow> False)
             | _ \<Rightarrow> False)
        | _ \<Rightarrow> False)
   | _ \<Rightarrow> False"
proof -
  define Ha where "Ha = fst (projr (the (NewLinkedList ([] :: int heap) [])))"
  define Hb where "Hb = fst (projr (the (NewLinkedList Ha [])))"
  define H where "H = projr (the (Append Hb (Ref 1) 5))"
  define n where "n = the (projr (Head H (Ref 1)))"
  have a: "NewLinkedList ([] :: int heap) [] = Some (Inr (Ha, Ref 0))"
    unfolding Ha_def by code_simp
  have b: "NewLinkedList Ha [] = Some (Inr (Hb, Ref 1))"
    unfolding Hb_def Ha_def by code_simp
  have c: "Append Hb (Ref 1) 5 = Some (Inr H)"
    unfolding H_def Hb_def Ha_def by code_simp
  have d: "Head H (Ref 1) = Inr (Some n)"
    unfolding n_def H_def Hb_def Ha_def by code_simp
  have o: "linkedList n \<noteq> Ref 0"
    unfolding n_def H_def Hb_def Ha_def by code_simp
  from Remove_foreign_handle_noop [of H "Ref 0" n] o
  have r: "Remove H (Ref 0) None = Some (Inr H)" "Remove H (Ref 0) (Some n) = Some (Inr H)"
    by simp_all
  show ?thesis
    by (simp only: a b c d o r sum.case prod.case option.case simp_thms)
qed

text \<open>
  Claim C5.  Two sequences of operations through handles just obtained from the list
  end normally in a list that breaks the invariant.  In the first, \<open>InsertNext\<close> on
  the handle \<open>Head().Next()\<close> resolves the handle to slot 0, links the new node to the
  sentinel and makes it the tail, which the walk from the head never reaches.  In the
  second, \<open>Remove(Tail())\<close> frees the slot of the head, and the next \<open>Append\<close>
  reuses that slot and links the head to itself.
\<close>

theorem list_invariant_broken:
  "map_option (map_sum id list_invariant)
     (after [OpAppend (1 :: int), OpAppend 2, OpInsertNext (FromHead 1) 3]) = Some (Inr False) \<and>
   map_option (map_sum id list_invariant)
     (after [OpAppend (1 :: int), OpAppend 2, OpRemove (FromTail 0), OpAppend 3]) = Some (Inr False)"
  by code_simp

end
